theory Spec2Isabelle
  imports Main "HOL-Library.Sublist" "HOL-Library.Word"
begin

section \<open>Ninja Go Local Cloud: path confinement and directory listing\<close>

text \<open>
  A shallow embedding of \<^verbatim>\<open>src/ninjacloud.go\<close>: the path functions \<^verbatim>\<open>osPath\<close> and
  \<^verbatim>\<open>isInRoot\<close>, the recursive \<^verbatim>\<open>listDir\<close>, \<^verbatim>\<open>modifiedSince\<close>, \<^verbatim>\<open>exist\<close> and the GET
  branches of \<^verbatim>\<open>fileHandler\<close> and \<^verbatim>\<open>dirHandler\<close>.

  Go strings are byte sequences and are modelled as \<open>string\<close>; \<^verbatim>\<open>int64\<close> is \<open>64 word\<close>
  read with \<open>sint\<close>. A run-time panic (a slice bound out of range) is the value
  \<open>Panics\<close>. The functions of Go's standard library that the program calls are modelled
  after their documented behaviour on a Unix host (\<^verbatim>\<open>path/filepath\<close> is host dependent);
  the Windows branch of \<^verbatim>\<open>osPath\<close> is kept because the source has it.
\<close>

subsection \<open>Go values\<close>

datatype 'a go = Panics | Returns 'a

datatype Errno = ENOENT | ENOTDIR | EACCES | EIO

text \<open>
  The error values the program can see: the three sentinels of package \<^verbatim>\<open>os\<close> it names
  (lines 102, 107, 182, 186) and \<^verbatim>\<open>*os.PathError{Op, Path, Err}\<close>, which is what
  \<^verbatim>\<open>os.Stat\<close>, \<^verbatim>\<open>os.Open\<close> and \<^verbatim>\<open>ioutil.ReadDir\<close> return when a system call fails.
\<close>

datatype go_error = ErrInvalid | ErrExist | ErrNotExist | PathError string string Errno

text \<open>\<^verbatim>\<open>os.IsNotExist\<close>: looks through a \<^verbatim>\<open>PathError\<close> for \<^verbatim>\<open>ENOENT\<close>.\<close>

fun os_IsNotExist :: "go_error option \<Rightarrow> bool" where
  "os_IsNotExist None = False"
| "os_IsNotExist (Some ErrNotExist) = True"
| "os_IsNotExist (Some (PathError opn path e)) = (e = ENOENT)"
| "os_IsNotExist (Some other) = False"

subsection \<open>Library functions on strings and paths\<close>

text \<open>\<^verbatim>\<open>strings.Split(s, sep)\<close> for a one-byte separator: \<^verbatim>\<open>Split("", ";")\<close> is \<^verbatim>\<open>[""]\<close>.\<close>

fun strings_Split :: "string \<Rightarrow> char \<Rightarrow> string list" where
  "strings_Split [] sep = [[]]"
| "strings_Split (c # cs) sep =
     (if c = sep then [] # strings_Split cs sep
      else (case strings_Split cs sep of
              [] \<Rightarrow> [[c]]
            | w # ws \<Rightarrow> (c # w) # ws))"

text \<open>
  \<^verbatim>\<open>filepath.Clean\<close> (Unix): empty elements and \<^verbatim>\<open>.\<close> are dropped, \<^verbatim>\<open>..\<close> removes the
  element before it, is dropped at the top of a rooted path and is kept at the front of
  a relative one; the empty result is \<^verbatim>\<open>.\<close>. \<open>cleanElems\<close> is the loop over the path
  elements, \<open>out\<close> the elements written so far.
\<close>

fun cleanElems :: "bool \<Rightarrow> string list \<Rightarrow> string list \<Rightarrow> string list" where
  "cleanElems rooted [] out = out"
| "cleanElems rooted (s # ss) out =
     (if s = [] \<or> s = ''.'' then cleanElems rooted ss out
      else if s = ''..'' then
        (if out \<noteq> [] \<and> last out \<noteq> ''..'' then cleanElems rooted ss (butlast out)
         else if \<not> rooted then cleanElems rooted ss (out @ [''..''])
         else cleanElems rooted ss out)
      else cleanElems rooted ss (out @ [s]))"

fun joinElems :: "string list \<Rightarrow> string" where
  "joinElems [] = []"
| "joinElems [s] = s"
| "joinElems (s # t # ss) = s @ ''/'' @ joinElems (t # ss)"

definition filepath_Clean :: "string \<Rightarrow> string" where
  "filepath_Clean path =
     (if path = [] then ''.''
      else let rooted = (hd path = CHR ''/'');
               out = (if rooted then ''/'' else [])
                       @ joinElems (cleanElems rooted (strings_Split path CHR ''/'') [])
           in if out = [] then ''.'' else out)"

text \<open>
  \<^verbatim>\<open>filepath.HasPrefix\<close> (Unix) is \<^verbatim>\<open>strings.HasPrefix\<close>: a comparison of bytes.
\<close>

definition filepath_HasPrefix :: "string \<Rightarrow> string \<Rightarrow> bool" where
  "filepath_HasPrefix p pre = prefix pre p"

text \<open>
  \<^verbatim>\<open>filepath.Ext\<close>: scans from the end of the name to the last separator and returns the
  suffix that starts at the first dot met, or the empty string. \<open>extScan\<close> walks the
  reversed name, \<open>seen\<close> being the bytes already passed.
\<close>

fun extScan :: "string \<Rightarrow> string \<Rightarrow> string" where
  "extScan [] seen = []"
| "extScan (c # cs) seen =
     (if c = CHR ''/'' then []
      else if c = CHR ''.'' then c # seen
      else extScan cs (c # seen))"

definition filepath_Ext :: "string \<Rightarrow> string" where
  "filepath_Ext path = extScan (rev path) []"

text \<open>\<^verbatim>\<open>strconv.FormatInt(i, 10)\<close>.\<close>

fun digitsOf :: "nat \<Rightarrow> string" where
  "digitsOf n =
     (if n < 10 then [''0123456789'' ! n]
      else digitsOf (n div 10) @ [''0123456789'' ! (n mod 10)])"

declare digitsOf.simps [simp del]

definition strconv_FormatInt :: "64 word \<Rightarrow> string" where
  "strconv_FormatInt i =
     (if sint i < 0 then CHR ''-'' # digitsOf (nat (- sint i)) else digitsOf (nat (sint i)))"

subsection \<open>Lines 55-62: sliceContains\<close>

fun sliceContains :: "string list \<Rightarrow> string \<Rightarrow> bool" where
  "sliceContains [] c = False"
| "sliceContains (e # s) c = (if c = e then True else sliceContains s c)"

subsection \<open>Lines 93-95 and 272-280: isInRoot and osPath\<close>

text \<open>
  \<open>root\<close> is the global \<^verbatim>\<open>rootFlag\<close>, set once from the command line (line 569);
  \<open>goos\<close> is \<^verbatim>\<open>runtime.GOOS\<close>.
\<close>

definition isInRoot :: "string \<Rightarrow> string \<Rightarrow> bool" where
  "isInRoot root path = filepath_HasPrefix path root"

text \<open>
  Line 273 calls \<^verbatim>\<open>filepath.Clean(p)\<close> and drops its result, so \<open>p\<close> is unchanged
  by it. On Windows \<^verbatim>\<open>p[:1]\<close> panics for the empty string.
\<close>

definition osPath :: "string \<Rightarrow> string \<Rightarrow> string go" where
  "osPath goos p =
     (if goos = ''windows''
      then (if length p < 1 then Panics else Returns (take 1 p @ '':'' @ drop 1 p))
      else Returns (''/'' @ p))"

text \<open>
  What the containment claims mean by a path lying lexically inside the root: after
  normalisation it is the root or continues the root at an element boundary. This is
  the reading of the specification, against which \<open>isInRoot\<close> is compared.
\<close>

definition lexicallyInside :: "string \<Rightarrow> string \<Rightarrow> bool" where
  "lexicallyInside root path =
     (let r = filepath_Clean root; q = filepath_Clean path
      in q = r \<or> prefix (if r = ''/'' then r else r @ ''/'') q)"

subsection \<open>The directory tree as \<^verbatim>\<open>ioutil.ReadDir\<close> shows it\<close>

text \<open>
  \<open>FileInfo\<close> holds what the program reads of an \<^verbatim>\<open>os.FileInfo\<close>: \<^verbatim>\<open>Name()\<close>,
  \<^verbatim>\<open>Size()\<close>, \<^verbatim>\<open>ModTime().UnixNano()\<close> and \<^verbatim>\<open>IsDir()\<close>.
\<close>

record FileInfo =
  fiName :: string
  fiSize :: "64 word"
  fiModTime :: "64 word"
  fiIsDir :: bool

text \<open>
  One call of \<^verbatim>\<open>ioutil.ReadDir(path)\<close> either fails (the list is \<^verbatim>\<open>nil\<close> and the error a
  \<^verbatim>\<open>PathError\<close> with the failed operation and the errno) or gives the entries of the
  directory in the order read. Every entry carries, besides its \<open>FileInfo\<close>, what a
  later \<^verbatim>\<open>ReadDir\<close> of that entry gives (\<open>below\<close>): the recursive call of \<^verbatim>\<open>listDir\<close> on
  \<^verbatim>\<open>path + "/" + d.Name()\<close> reads it afresh. \<^verbatim>\<open>ReadDir\<close> does not follow symbolic links,
  so the entries form a finite tree.
\<close>

datatype dirread = ReadFails string Errno | ReadGives "dirent list"
and dirent = Dirent (info: FileInfo) (below: dirread)

subsection \<open>Lines 211-220: element\<close>

datatype element = Element (Type: string) (Name: string) (Uri: string)
  (CreationDate: string) (ModifiedDate: string) (Size: string) (Writable: string)
  (Children: "element list")

subsection \<open>Lines 222-268: listDir\<close>

definition returnAll :: "string \<Rightarrow> bool" where
  "returnAll returnType = (returnType = ''all'' \<or> returnType = [])"

definition returnFiles :: "string \<Rightarrow> bool" where
  "returnFiles returnType = (returnType = ''files'' \<or> returnAll returnType)"

definition returnDirs :: "string \<Rightarrow> bool" where
  "returnDirs returnType = (returnType = ''directories'' \<or> returnAll returnType)"

text \<open>
  The slice expression \<^verbatim>\<open>modTime[:len(modTime)-6]\<close> (lines 231, 254, 399): it panics
  when the string has fewer than six bytes.
\<close>

definition dropLast6 :: "string \<Rightarrow> string go" where
  "dropLast6 modTime =
     (if length modTime < 6 then Panics else Returns (take (length modTime - 6) modTime))"

lemma size_below: "size (below d) \<le> size d + n"
  by (cases d) simp

text \<open>
  \<open>listDir\<close> returns its two named results \<^verbatim>\<open>(list, err)\<close>. \<open>listDirLoop\<close> is the
  \<^verbatim>\<open>for\<close> loop of lines 227-266 over the entries still to visit, with the \<open>list\<close> built
  so far. Line 233 appends an empty \<^verbatim>\<open>element{}\<close> before the directory's own element
  is appended at line 249. The bare \<^verbatim>\<open>return\<close> of line 244 returns the list built so far
  together with the error.
\<close>

function listDir ::
    "string \<Rightarrow> dirread \<Rightarrow> bool \<Rightarrow> string list \<Rightarrow> string \<Rightarrow> (element list \<times> go_error option) go"
  and listDirLoop ::
    "string \<Rightarrow> bool \<Rightarrow> string list \<Rightarrow> string \<Rightarrow> dirent list \<Rightarrow> element list
       \<Rightarrow> (element list \<times> go_error option) go"
where
  "listDir path (ReadFails opn e) recursive filter' returnType =
     Returns ([], Some (PathError opn path e))"
| "listDir path (ReadGives currentDir) recursive filter' returnType =
     listDirLoop path recursive filter' returnType currentDir []"
| "listDirLoop path recursive filter' returnType [] list = Returns (list, None)"
| "listDirLoop path recursive filter' returnType (d # ds) list =
     (if fiIsDir (info d) \<and> returnDirs returnType then
        (case dropLast6 (strconv_FormatInt (fiModTime (info d))) of
           Panics \<Rightarrow> Panics
         | Returns modTime \<Rightarrow>
            (if recursive then
               (case listDir (filepath_Clean (path @ ''/'' @ fiName (info d))) (below d)
                       recursive filter' returnType of
                  Panics \<Rightarrow> Panics
                | Returns (children, Some err) \<Rightarrow>
                    Returns (list @ [Element [] [] [] [] [] [] [] []], Some err)
                | Returns (children, None) \<Rightarrow>
                    listDirLoop path recursive filter' returnType ds
                      (list @ [Element [] [] [] [] [] [] [] []]
                            @ [Element ''directory'' (fiName (info d))
                                 (filepath_Clean (path @ ''/'' @ fiName (info d)))
                                 modTime modTime (strconv_FormatInt (fiSize (info d)))
                                 ''true'' children]))
             else
               listDirLoop path recursive filter' returnType ds
                 (list @ [Element [] [] [] [] [] [] [] []]
                       @ [Element ''directory'' (fiName (info d))
                            (filepath_Clean (path @ ''/'' @ fiName (info d)))
                            modTime modTime (strconv_FormatInt (fiSize (info d)))
                            ''true'' []])))
      else if \<not> fiIsDir (info d) \<and> returnFiles returnType then
        (if sliceContains filter' (filepath_Ext (fiName (info d))) then
           (case dropLast6 (strconv_FormatInt (fiModTime (info d))) of
              Panics \<Rightarrow> Panics
            | Returns modTime \<Rightarrow>
               listDirLoop path recursive filter' returnType ds
                 (list @ [Element ''file'' (fiName (info d))
                            (filepath_Clean (path @ ''/'' @ fiName (info d)))
                            modTime modTime (strconv_FormatInt (fiSize (info d)))
                            ''true'' []]))
         else listDirLoop path recursive filter' returnType ds list)
      else listDirLoop path recursive filter' returnType ds list)"
  by pat_completeness auto
termination
  by (relation "measure (\<lambda>x. case x of
                   Inl (path, rd, rest) \<Rightarrow> size rd
                 | Inr (path, recursive, filter', returnType, ds, list) \<Rightarrow> size_list size ds)")
     (auto simp: less_Suc_eq_le size_below)

subsection \<open>strconv.ParseInt(s, 10, 64)\<close>

text \<open>
  As documented: an optional sign, then decimal digits. On an empty string or a byte
  that is not a digit the value is 0 with \<^verbatim>\<open>ErrSyntax\<close>; when the digits read so far
  leave the range the value is the bound of that sign with \<^verbatim>\<open>ErrRange\<close> (the rest of
  the string is then not looked at). \<open>parseUintLoop\<close> is the digit loop of
  \<^verbatim>\<open>ParseUint\<close>, \<open>n\<close> the value read so far.
\<close>

datatype NumError = ErrSyntax | ErrRange

fun parseUintLoop :: "string \<Rightarrow> nat \<Rightarrow> nat \<times> NumError option" where
  "parseUintLoop [] n = (n, None)"
| "parseUintLoop (c # cs) n =
     (if of_char c < (48 :: nat) \<or> (57 :: nat) < of_char c then (0, Some ErrSyntax)
      else if (2 ^ 64 - 1) div 10 + 1 \<le> n then (2 ^ 64 - 1, Some ErrRange)
      else if 2 ^ 64 - 1 < n * 10 + (of_char c - 48) then (2 ^ 64 - 1, Some ErrRange)
      else parseUintLoop cs (n * 10 + (of_char c - 48)))"

definition strconv_ParseUint :: "string \<Rightarrow> nat \<times> NumError option" where
  "strconv_ParseUint s = (if s = [] then (0, Some ErrSyntax) else parseUintLoop s 0)"

definition strconv_ParseInt :: "string \<Rightarrow> 64 word \<times> NumError option" where
  "strconv_ParseInt s =
     (if s = [] then (0, Some ErrSyntax)
      else
        let neg = (hd s = CHR ''-'');
            digits = (if hd s = CHR ''+'' \<or> hd s = CHR ''-'' then tl s else s);
            (un, err) = strconv_ParseUint digits
        in if err = Some ErrSyntax then (0, Some ErrSyntax)
           else if \<not> neg \<and> 2 ^ 63 \<le> un then (word_of_nat (2 ^ 63 - 1), Some ErrRange)
           else if neg \<and> 2 ^ 63 < un then (- word_of_nat (2 ^ 63), Some ErrRange)
           else (if neg then - word_of_nat un else word_of_nat un, None))"

subsection \<open>The process and the file system it runs on\<close>

text \<open>
  \<open>GOOS\<close> is \<^verbatim>\<open>runtime.GOOS\<close>, \<open>rootFlag\<close> the root given on the command line;
  \<open>os_Stat\<close> and \<open>ioutil_ReadDir\<close> are the answers of the file system at the time of the
  request.
\<close>

record world =
  GOOS :: string
  rootFlag :: string
  os_Stat :: "string \<Rightarrow> Errno + FileInfo"
  ioutil_ReadDir :: "string \<Rightarrow> dirread"

subsection \<open>Lines 66-91: properties, modifiedSince, exist\<close>

definition properties :: "world \<Rightarrow> string \<Rightarrow> go_error + FileInfo" where
  "properties w path =
     (case os_Stat w path of
        Inl e \<Rightarrow> Inl (PathError ''stat'' path e)
      | Inr infos \<Rightarrow> Inr infos)"

text \<open>
  Line 72 keeps the value \<^verbatim>\<open>ParseInt\<close> returns; its error is overwritten at line 73.
  Line 78 multiplies in \<^verbatim>\<open>int64\<close>, which wraps around; line 79 compares signed.
\<close>

definition modifiedSince :: "world \<Rightarrow> string \<Rightarrow> string \<Rightarrow> bool" where
  "modifiedSince w path since =
     (case properties w path of
        Inl err \<Rightarrow> False
      | Inr infos \<Rightarrow>
          (if fiModTime infos <s fst (strconv_ParseInt since) * 1000000 then True else False))"

definition exist :: "world \<Rightarrow> string \<Rightarrow> bool" where
  "exist w path =
     (case properties w path of
        Inl err \<Rightarrow> (if \<not> os_IsNotExist (Some err) then True else False)
      | Inr infos \<Rightarrow> (if \<not> os_IsNotExist None then True else False))"

subsection \<open>Lines 284-418 and 422-538: the GET branches of the handlers\<close>

record request =
  Method :: string
  URLPath :: string
  Header :: "string \<Rightarrow> string"

text \<open>
  What a handler does to the \<^verbatim>\<open>ResponseWriter\<close>: \<open>WriteHeader\<close> a status and return;
  \<open>Write\<close> raw bytes; write the JSON encoding of an element (\<open>WriteJSON\<close>) or of a string
  map (\<open>WriteJSONMap\<close>), which \<^verbatim>\<open>encoding/json\<close> cannot refuse for these types; hand
  over to \<^verbatim>\<open>http.ServeFile\<close>; or panic (\<open>Aborted\<close>). \<open>OtherVerb\<close> stands for the POST, PUT
  and DELETE branches, which change the file system and are not part of this
  development, and for a verb no branch matches.
\<close>

datatype response =
    WriteHeader nat
  | Write string
  | WriteJSON element
  | WriteJSONMap "(string \<times> string) list"
  | ServeFile string
  | Aborted
  | OtherVerb

abbreviation StatusOK :: nat where "StatusOK \<equiv> 200"
abbreviation StatusNoContent :: nat where "StatusNoContent \<equiv> 204"
abbreviation StatusNotModified :: nat where "StatusNotModified \<equiv> 304"
abbreviation StatusForbidden :: nat where "StatusForbidden \<equiv> 403"
abbreviation StatusNotFound :: nat where "StatusNotFound \<equiv> 404"
abbreviation StatusInternalServerError :: nat where "StatusInternalServerError \<equiv> 500"

definition filePath :: string where "filePath = ''/file/''"
definition dirPath :: string where "dirPath = ''/directory/''"
definition filePathLen :: nat where "filePathLen = length filePath"
definition dirPathLen :: nat where "dirPathLen = length dirPath"

text \<open>The slice expression \<^verbatim>\<open>s[n:]\<close>: it panics when \<open>n\<close> is past the end.\<close>

definition sliceFrom :: "string \<Rightarrow> nat \<Rightarrow> string go" where
  "sliceFrom s n = (if length s < n then Panics else Returns (drop n s))"

definition fileHandlerGET :: "world \<Rightarrow> request \<Rightarrow> string \<Rightarrow> response" where
  "fileHandlerGET w r p =
     (let modSince = Header r ''If-modified-since'';
          getInfo = Header r ''get-file-info''
      in if modSince \<noteq> [] \<and> modSince \<noteq> ''false'' \<and> modSince \<noteq> ''none'' then
           (if modifiedSince w p modSince then WriteHeader StatusOK
            else WriteHeader StatusNotModified)
         else if Header r ''check-existence-only'' = ''true'' then
           (if exist w p then WriteHeader StatusNoContent else WriteHeader StatusNotFound)
         else if getInfo \<noteq> [] \<and> getInfo \<noteq> ''false'' then
           (case properties w p of
              Inl err \<Rightarrow> WriteHeader StatusInternalServerError
            | Inr infos \<Rightarrow>
               (case dropLast6 (strconv_FormatInt (fiModTime infos)) of
                  Panics \<Rightarrow> Aborted
                | Returns modDate \<Rightarrow>
                    WriteJSONMap [(''creationDate'', modDate), (''modifiedDate'', modDate),
                                  (''size'', strconv_FormatInt (fiSize infos)),
                                  (''readOnly'', ''false'')]))
         else ServeFile p)"

definition fileHandler :: "world \<Rightarrow> request \<Rightarrow> response" where
  "fileHandler w r =
     (case sliceFrom (URLPath r) filePathLen of
        Panics \<Rightarrow> Aborted
      | Returns fragment \<Rightarrow>
         (case osPath (GOOS w) fragment of
            Panics \<Rightarrow> Aborted
          | Returns p \<Rightarrow>
             (if \<not> isInRoot (rootFlag w) p then WriteHeader StatusForbidden
              else if Method r = ''GET'' then fileHandlerGET w r p
              else OtherVerb)))"

definition dirHandlerGET :: "world \<Rightarrow> request \<Rightarrow> string \<Rightarrow> response" where
  "dirHandlerGET w r p =
     (let modSince = Header r ''If-modified-since''
      in if p = [] then Write (rootFlag w)
         else if modSince \<noteq> [] \<and> modSince \<noteq> ''false'' \<and> modSince \<noteq> ''none'' then
           (if \<not> exist w p then WriteHeader StatusNotFound
            else if modifiedSince w p modSince then WriteHeader StatusOK
            else WriteHeader StatusNotModified)
         else if Header r ''check-existence-only'' = ''true'' then
           (if exist w p then WriteHeader StatusNoContent else WriteHeader StatusNotFound)
         else
           (let recursive = (Header r ''recursive'' = ''true'');
                filter' = strings_Split (Header r ''file-filters'') CHR '';'';
                returnType = (if Header r ''return-type'' = [] then ''all''
                              else Header r ''return-type'')
            in case listDir p (ioutil_ReadDir w p) recursive filter' returnType of
                 Panics \<Rightarrow> Aborted
               | Returns (fileInfo, err) \<Rightarrow>
                   (if err = Some ErrNotExist then WriteHeader StatusNotFound
                    else if err \<noteq> None then WriteHeader StatusInternalServerError
                    else WriteJSON (Element ''directory'' ''root'' (p @ ''/'') [] [] [] []
                                      fileInfo))))"

definition dirHandler :: "world \<Rightarrow> request \<Rightarrow> response" where
  "dirHandler w r =
     (case sliceFrom (URLPath r) dirPathLen of
        Panics \<Rightarrow> Aborted
      | Returns fragment \<Rightarrow>
         (case osPath (GOOS w) fragment of
            Panics \<Rightarrow> Aborted
          | Returns p \<Rightarrow>
             (if \<not> isInRoot (rootFlag w) p then WriteHeader StatusForbidden
              else if Method r = ''GET'' then dirHandlerGET w r p
              else OtherVerb)))"

subsection \<open>Predicates and sample data for the properties\<close>

text \<open>
  The invariant on an element tree: an element of type \<^verbatim>\<open>file\<close> has no children, and so
  for every element below it.
\<close>

fun filesAreLeaves :: "element \<Rightarrow> bool" where
  "filesAreLeaves (Element ty n u c m s w children) =
     ((if ty = ''file'' then children = [] else True)
      \<and> (\<forall>e \<in> set children. filesAreLeaves e))"

text \<open>
  Some directory that the listing reads cannot be read: the listed directory itself,
  or, when the listing descends (\<open>descend\<close>), a directory at any depth below it.
\<close>

lemma size_below_mem [termination_simp]:
  "d \<in> set ds \<Longrightarrow> size (below d) < Suc (size_list size ds)"
  by (induction ds) (auto simp: less_Suc_eq_le intro: le_trans [OF size_below])

fun unreadable :: "bool \<Rightarrow> dirread \<Rightarrow> bool" where
  "unreadable descend (ReadFails opn e) = True"
| "unreadable descend (ReadGives ds) =
     (descend \<and> (\<exists>d \<in> set ds. fiIsDir (info d) \<and> unreadable descend (below d)))"

text \<open>
  A sample file system, given by its answers to the calls made in the examples. A read
  of \<^verbatim>\<open>/srv/data\<close> gives, in the order of \<^verbatim>\<open>ReadDir\<close> (sorted by name), \<^verbatim>\<open>README\<close>, \<^verbatim>\<open>a.txt\<close>,
  \<^verbatim>\<open>b.jpg\<close> and the directory \<^verbatim>\<open>sub\<close>, which holds \<^verbatim>\<open>c.txt\<close>. A read of
  \<^verbatim>\<open>/srv/data/torn\<close> gives \<^verbatim>\<open>a.txt\<close> and a directory \<^verbatim>\<open>gone\<close> that is removed before it can
  be read; \<^verbatim>\<open>/srv/data/locked\<close> may not be opened; a read of any other path finds
  nothing there. Stat knows \<^verbatim>\<open>/srv/data\<close>, \<^verbatim>\<open>/srv/data/a.txt\<close> and \<^verbatim>\<open>/srv/data/old\<close>, a
  file last modified one second before 1970.
\<close>

definition plainFile :: "string \<Rightarrow> dirent" where
  "plainFile name =
     Dirent \<lparr>fiName = name, fiSize = 12, fiModTime = 1351789200000000000, fiIsDir = False\<rparr>
       (ReadFails ''readdirent'' ENOTDIR)"

definition directory :: "string \<Rightarrow> dirread \<Rightarrow> dirent" where
  "directory name rd =
     Dirent \<lparr>fiName = name, fiSize = 4096, fiModTime = 1351789200000000000, fiIsDir = True\<rparr> rd"

definition subEntry :: dirent where
  "subEntry = directory ''sub'' (ReadGives [plainFile ''c.txt''])"

definition dataEntries :: "dirent list" where
  "dataEntries = [plainFile ''README'', plainFile ''a.txt'', plainFile ''b.jpg'', subEntry]"

definition tornEntries :: "dirent list" where
  "tornEntries = [plainFile ''a.txt'', directory ''gone'' (ReadFails ''open'' ENOENT)]"

definition sampleWorld :: world where
  "sampleWorld =
     \<lparr>GOOS = ''linux'', rootFlag = ''/srv/data'',
      os_Stat = (\<lambda>p. if p = ''/srv/data'' then Inr (info (directory ''data'' (ReadGives dataEntries)))
                     else if p = ''/srv/data/a.txt'' then Inr (info (plainFile ''a.txt''))
                     else if p = ''/srv/data/old''
                       then Inr \<lparr>fiName = ''old'', fiSize = 0, fiModTime = - 1000000000,
                                 fiIsDir = False\<rparr>
                     else Inl ENOENT),
      ioutil_ReadDir = (\<lambda>p. if p = ''/srv/data'' then ReadGives dataEntries
                            else if p = ''/srv/data/torn'' then ReadGives tornEntries
                            else if p = ''/srv/data/locked'' then ReadFails ''open'' EACCES
                            else ReadFails ''open'' ENOENT)\<rparr>"

text \<open>
  The elements of the recursive listing of \<^verbatim>\<open>/srv/data\<close> with the filter \<^verbatim>\<open>.txt\<close> and the
  return type \<^verbatim>\<open>all\<close>.
\<close>

definition subListing :: "element list" where
  "subListing =
     [Element ''file'' ''c.txt'' ''/srv/data/sub/c.txt'' ''1351789200000'' ''1351789200000''
        ''12'' ''true'' []]"

definition sampleListing :: "element list" where
  "sampleListing =
     [Element ''file'' ''a.txt'' ''/srv/data/a.txt'' ''1351789200000'' ''1351789200000''
        ''12'' ''true'' [],
      Element [] [] [] [] [] [] [] [],
      Element ''directory'' ''sub'' ''/srv/data/sub'' ''1351789200000'' ''1351789200000''
        ''4096'' ''true'' subListing]"

text \<open>A GET request for a URL path with the given headers; a header not given is empty.\<close>

definition getRequest :: "string \<Rightarrow> (string \<times> string) list \<Rightarrow> request" where
  "getRequest url headers =
     \<lparr>Method = ''GET'', URLPath = url,
      Header = (\<lambda>k. case map_of headers k of None \<Rightarrow> [] | Some v \<Rightarrow> v)\<rparr>"

section \<open>Evaluation of the sample data\<close>

lemma format_sample_time:
  "dropLast6 (strconv_FormatInt 1351789200000000000) = Returns ''1351789200000''"
  by (simp add: strconv_FormatInt_def digitsOf.simps dropLast6_def)

lemma format_sample_sizes:
  "strconv_FormatInt 12 = ''12''" "strconv_FormatInt 4096 = ''4096''"
  by (simp_all add: strconv_FormatInt_def digitsOf.simps)

lemmas path_eval = osPath_def isInRoot_def filepath_HasPrefix_def

lemmas listing_eval = returnDirs_def returnAll_def returnFiles_def
  format_sample_time format_sample_sizes filepath_Clean_def filepath_Ext_def

lemmas sample_eval = sampleWorld_def getRequest_def dataEntries_def tornEntries_def
  subEntry_def plainFile_def directory_def

lemmas handler_eval = dirHandler_def dirHandlerGET_def fileHandler_def fileHandlerGET_def
  sliceFrom_def dirPathLen_def dirPath_def filePathLen_def filePath_def
  properties_def exist_def modifiedSince_def

lemma sample_listing:
  "listDir ''/srv/data'' (ReadGives dataEntries) True [''.txt''] ''all''
     = Returns (sampleListing, None)"
  by (simp add: sample_eval listing_eval sampleListing_def subListing_def)



section \<open>Path confinement\<close>

lemma osPath_unix: "goos \<noteq> ''windows'' \<Longrightarrow> osPath goos p = Returns (CHR ''/'' # p)"
  by (simp add: osPath_def)

lemma isInRoot_iff_prefix: "isInRoot root path = prefix root path"
  by (simp add: isInRoot_def filepath_HasPrefix_def)

lemma osPath_nonempty: "osPath goos fragment = Returns p \<Longrightarrow> p \<noteq> []"
  by (auto simp: osPath_def split: if_splits)

text \<open>
  Claim C1 (containment under \<^verbatim>\<open>..\<close>): the claim says that a fragment with \<^verbatim>\<open>..\<close> elements
  is never accepted with a resolved path lexically outside the root. The code accepts
  one: with root \<^verbatim>\<open>/srv/data\<close> the fragment \<^verbatim>\<open>srv/data/../../etc/passwd\<close> is resolved to
  \<^verbatim>\<open>/srv/data/../../etc/passwd\<close> (the result of \<^verbatim>\<open>filepath.Clean\<close> is dropped at line 273),
  which \<open>isInRoot\<close> accepts, and which denotes \<^verbatim>\<open>/etc/passwd\<close>, outside the root;
  \<open>fileHandler\<close>, given that request path, hands the path to \<^verbatim>\<open>http.ServeFile\<close>.
\<close>

theorem dotdot_escape_accepted:
  "osPath ''linux'' ''srv/data/../../etc/passwd'' = Returns ''/srv/data/../../etc/passwd''
   \<and> isInRoot ''/srv/data'' ''/srv/data/../../etc/passwd''
   \<and> filepath_Clean ''/srv/data/../../etc/passwd'' = ''/etc/passwd''
   \<and> \<not> lexicallyInside ''/srv/data'' ''/srv/data/../../etc/passwd''
   \<and> fileHandler sampleWorld (getRequest ''/file/srv/data/../../etc/passwd'' [])
       = ServeFile ''/srv/data/../../etc/passwd''"
  by (simp add: path_eval filepath_Clean_def lexicallyInside_def sample_eval handler_eval)

text \<open>
  Claim C2 (boundary aliasing): the claim says that a sibling of the root whose name
  continues the root's bytes is rejected. \<open>isInRoot\<close> compares bytes only: with root
  \<^verbatim>\<open>/srv/data\<close> the fragment \<^verbatim>\<open>srv/data-other\<close> resolves to \<^verbatim>\<open>/srv/data-other\<close> and is
  accepted, although it is not inside the root; a GET of \<^verbatim>\<open>/file/srv/data-other/secret\<close>
  hands that path to \<^verbatim>\<open>http.ServeFile\<close>.
\<close>

theorem sibling_prefix_accepted:
  "osPath ''linux'' ''srv/data-other'' = Returns ''/srv/data-other''
   \<and> isInRoot ''/srv/data'' ''/srv/data-other''
   \<and> \<not> lexicallyInside ''/srv/data'' ''/srv/data-other''
   \<and> fileHandler sampleWorld (getRequest ''/file/srv/data-other/secret'' [])
       = ServeFile ''/srv/data-other/secret''"
  by (simp add: path_eval filepath_Clean_def lexicallyInside_def sample_eval handler_eval)

text \<open>
  Claim C3, as stated, fails: the fragment \<^verbatim>\<open>a/../b\<close> under root \<^verbatim>\<open>/srv/data\<close> is not
  resolved to \<^verbatim>\<open>/srv/data/b\<close>. \<open>osPath\<close> never joins the fragment to the root; it reads it
  from \<^verbatim>\<open>/\<close>, and the request is refused with 403.
\<close>

theorem fragment_not_joined_to_root:
  "osPath ''linux'' ''a/../b'' = Returns ''/a/../b''
   \<and> osPath ''linux'' ''a/../b'' \<noteq> Returns ''/srv/data/b''
   \<and> \<not> isInRoot ''/srv/data'' ''/a/../b''
   \<and> fileHandler sampleWorld (getRequest ''/file/a/../b'' []) = WriteHeader StatusForbidden"
  by (simp add: path_eval sample_eval handler_eval)

text \<open>
  Claim C3, amended: on a host other than Windows, \<open>osPath\<close> renders every fragment
  absolute without consulting the file system or the root: the resolved path denotes,
  after normalisation, the fragment read from \<^verbatim>\<open>/\<close>. So \<^verbatim>\<open>a/../b\<close> denotes \<^verbatim>\<open>/b\<close> and is
  rejected under root \<^verbatim>\<open>/srv/data\<close>, and \<^verbatim>\<open>srv/data/b\<close> resolves to \<^verbatim>\<open>/srv/data/b\<close> and is
  accepted. (Whether the resolved path itself is normalised is not part of the
  statement.)
\<close>

theorem osPath_reads_from_slash:
  assumes "goos \<noteq> ''windows''"
  shows "(\<exists>q. osPath goos p = Returns q \<and> filepath_Clean q = filepath_Clean (CHR ''/'' # p))
     \<and> (\<forall>q. osPath goos ''a/../b'' = Returns q
            \<longrightarrow> filepath_Clean q = ''/b'' \<and> \<not> isInRoot ''/srv/data'' q)
     \<and> (\<forall>q. osPath goos ''srv/data/b'' = Returns q
            \<longrightarrow> q = ''/srv/data/b'' \<and> isInRoot ''/srv/data'' q)"
  using assms by (simp add: path_eval filepath_Clean_def)

text \<open>Witness for C3: the theorem at \<^verbatim>\<open>linux\<close> and the fragment \<^verbatim>\<open>srv/data/x/../b\<close>.\<close>

theorem osPath_reads_from_slash_witness:
  "\<exists>q. osPath ''linux'' ''srv/data/x/../b'' = Returns q \<and> filepath_Clean q = ''/srv/data/b''"
  using osPath_reads_from_slash [of "''linux''" "''srv/data/x/../b''"]
  by (simp add: filepath_Clean_def)

section \<open>The root echo of dirHandler\<close>

lemma dirHandlerGET_Write: "dirHandlerGET w r p = Write s \<Longrightarrow> p = []"
  by (simp add: dirHandlerGET_def Let_def split: if_splits go.splits prod.splits)

text \<open>
  The branch of line 454 tests \<^verbatim>\<open>p == ""\<close> after \<open>osPath\<close> has put a separator in front
  of the fragment, so no request reaches it.
\<close>

lemma root_echo_unreachable: "dirHandler w r \<noteq> Write s"
proof
  assume "dirHandler w r = Write s"
  then obtain fragment p
    where "osPath (GOOS w) fragment = Returns p" "dirHandlerGET w r p = Write s"
    by (auto simp: dirHandler_def split: go.splits if_splits)
  then show False
    using osPath_nonempty dirHandlerGET_Write by blast
qed

text \<open>
  Claim C4 (root echo): the claim says that a directory GET with an empty remainder after
  \<^verbatim>\<open>/directory/\<close>, resolving to the root, is answered with the root path as a raw string
  and neither with an error nor with a listing. In the code the empty remainder resolves
  to \<^verbatim>\<open>/\<close>: under root \<^verbatim>\<open>/srv/data\<close> the request is refused with 403, and under root \<^verbatim>\<open>/\<close>
  it is answered with the listing of \<^verbatim>\<open>/\<close>. The GET of \<^verbatim>\<open>/directory/srv/data\<close>, whose
  fragment resolves to exactly the root \<^verbatim>\<open>/srv/data\<close>, is answered with a listing too.
\<close>

theorem root_request_not_echoed:
  "dirHandler sampleWorld (getRequest ''/directory/'' []) = WriteHeader StatusForbidden
   \<and> dirHandler (sampleWorld\<lparr>rootFlag := ''/'', ioutil_ReadDir := (\<lambda>p. ReadGives [])\<rparr>)
         (getRequest ''/directory/'' [])
       = WriteJSON (Element ''directory'' ''root'' ''//'' [] [] [] [] [])
   \<and> dirHandler sampleWorld
         (getRequest ''/directory/srv/data'' [(''return-type'', ''directories'')])
       = WriteJSON (Element ''directory'' ''root'' ''/srv/data/'' [] [] [] []
           [Element [] [] [] [] [] [] [] [],
            Element ''directory'' ''sub'' ''/srv/data/sub'' ''1351789200000'' ''1351789200000''
              ''4096'' ''true'' []])"
  by (simp add: path_eval sample_eval handler_eval listing_eval)

section \<open>Directory listing\<close>

subsection \<open>What the loop appends\<close>

text \<open>
  The list only grows (\<open>loop_extends\<close>); every element of the result was there before,
  is the empty element of line 233, or is the element of a directory or of a file among
  the entries visited (\<open>loop_provenance\<close>); and when the loop ends without an error,
  every entry that passes its test has its element (\<open>loop_complete_dirs\<close>,
  \<open>loop_complete_files\<close>).
\<close>

lemma sliceContains_iff: "sliceContains s c \<longleftrightarrow> c \<in> set s"
  by (induction s) auto

lemma loop_extends:
  "listDirLoop path recursive f rt ds acc = Returns (list, err) \<Longrightarrow> prefix acc list"
  by (induction ds arbitrary: acc)
     (auto split: if_splits go.splits option.splits prod.splits dest: append_prefixD)

lemma loop_provenance:
  "listDirLoop path recursive f rt ds acc = Returns (list, err) \<Longrightarrow> e \<in> set list \<Longrightarrow>
     e \<in> set acc \<or> e = Element [] [] [] [] [] [] [] [] \<or>
     (\<exists>d \<in> set ds. fiIsDir (info d) \<and> returnDirs rt \<and> Type e = ''directory''
        \<and> Name e = fiName (info d)
        \<and> Uri e = filepath_Clean (path @ ''/'' @ fiName (info d))
        \<and> (if recursive
            then listDir (Uri e) (below d) recursive f rt = Returns (Children e, None)
            else Children e = [])) \<or>
     (\<exists>d \<in> set ds. \<not> fiIsDir (info d) \<and> returnFiles rt
        \<and> sliceContains f (filepath_Ext (fiName (info d)))
        \<and> Type e = ''file'' \<and> Name e = fiName (info d)
        \<and> Uri e = filepath_Clean (path @ ''/'' @ fiName (info d)) \<and> Children e = [])"
proof (induction ds arbitrary: acc)
  case Nil
  then show ?case by simp
next
  case (Cons d ds)
  show ?case
    using Cons.prems Cons.IH
    by (simp split: if_splits go.splits option.splits prod.splits) fastforce+
qed

lemma loop_complete_dirs:
  "listDirLoop path recursive f rt ds acc = Returns (list, None) \<Longrightarrow> d \<in> set ds \<Longrightarrow>
   fiIsDir (info d) \<Longrightarrow> returnDirs rt \<Longrightarrow>
   \<exists>e \<in> set list. Type e = ''directory'' \<and> Name e = fiName (info d)"
proof (induction ds arbitrary: acc)
  case Nil
  then show ?case by simp
next
  case (Cons x ds)
  show ?case
  proof (cases "d = x")
    case True
    with Cons.prems show ?thesis
      by (auto split: if_splits go.splits option.splits prod.splits dest!: loop_extends
               simp: prefix_def)
  next
    case False
    with Cons.prems Cons.IH show ?thesis
      by (auto split: if_splits go.splits option.splits prod.splits)
  qed
qed

lemma loop_complete_files:
  "listDirLoop path recursive f rt ds acc = Returns (list, None) \<Longrightarrow> d \<in> set ds \<Longrightarrow>
   \<not> fiIsDir (info d) \<Longrightarrow> returnFiles rt \<Longrightarrow>
   sliceContains f (filepath_Ext (fiName (info d))) \<Longrightarrow>
   \<exists>e \<in> set list. Type e = ''file'' \<and> Name e = fiName (info d)"
proof (induction ds arbitrary: acc)
  case Nil
  then show ?case by simp
next
  case (Cons x ds)
  show ?case
  proof (cases "d = x")
    case True
    with Cons.prems show ?thesis
      by (auto split: if_splits go.splits option.splits prod.splits dest!: loop_extends
               simp: prefix_def)
  next
    case False
    with Cons.prems Cons.IH show ?thesis
      by (auto split: if_splits go.splits option.splits prod.splits)
  qed
qed



lemma loop_complete_files_full:
  "listDirLoop path recursive f rt ds acc = Returns (list, None) \<Longrightarrow> d \<in> set ds \<Longrightarrow>
   \<not> fiIsDir (info d) \<Longrightarrow> returnFiles rt \<Longrightarrow>
   sliceContains f (filepath_Ext (fiName (info d))) \<Longrightarrow>
   \<exists>e \<in> set list. Type e = ''file'' \<and> Name e = fiName (info d)
      \<and> Uri e = filepath_Clean (path @ ''/'' @ fiName (info d)) \<and> Children e = []"
proof (induction ds arbitrary: acc)
  case Nil
  then show ?case by simp
next
  case (Cons x ds)
  show ?case
  proof (cases "d = x")
    case True
    with Cons.prems show ?thesis
      by (auto split: if_splits go.splits option.splits prod.splits dest!: loop_extends
               simp: prefix_def)
  next
    case False
    with Cons.prems Cons.IH show ?thesis
      by (auto split: if_splits go.splits option.splits prod.splits)
  qed
qed

text \<open>
  Leaving the empty elements of line 233 aside, the names in the result are the names of
  the entries that pass their test, in the order read and once each.
\<close>

lemma loop_names_in_order:
  "listDirLoop path recursive f rt ds acc = Returns (list, None) \<Longrightarrow>
   map Name (filter (\<lambda>e. Type e \<noteq> []) list)
     = map Name (filter (\<lambda>e. Type e \<noteq> []) acc)
       @ map (\<lambda>d. fiName (info d))
           (filter (\<lambda>d. if fiIsDir (info d) then returnDirs rt
                          else returnFiles rt \<and> sliceContains f (filepath_Ext (fiName (info d))))
              ds)"
  by (induction ds arbitrary: acc)
     (auto split: if_splits go.splits option.splits prod.splits)

lemma dir_included_iff:
  assumes run: "listDirLoop path recursive f rt ds [] = Returns (list, None)"
    and d: "d \<in> set ds" "fiIsDir (info d)"
  shows "(\<exists>e \<in> set list. Type e = ''directory'' \<and> Name e = fiName (info d)) \<longleftrightarrow> returnDirs rt"
proof
  assume "\<exists>e \<in> set list. Type e = ''directory'' \<and> Name e = fiName (info d)"
  then obtain e where e: "e \<in> set list" "Type e = ''directory''" by blast
  from loop_provenance [OF run e(1)] e(2) show "returnDirs rt" by auto
next
  assume "returnDirs rt"
  with loop_complete_dirs [OF run d] show "\<exists>e \<in> set list. Type e = ''directory'' \<and> Name e = fiName (info d)"
    by simp
qed

lemma file_included_iff:
  assumes run: "listDirLoop path recursive f rt ds [] = Returns (list, None)"
    and d: "d \<in> set ds" "\<not> fiIsDir (info d)"
  shows "(\<exists>e \<in> set list. Type e = ''file'' \<and> Name e = fiName (info d))
           \<longleftrightarrow> returnFiles rt \<and> filepath_Ext (fiName (info d)) \<in> set f"
proof
  assume "\<exists>e \<in> set list. Type e = ''file'' \<and> Name e = fiName (info d)"
  then obtain e where e: "e \<in> set list" "Type e = ''file''" "Name e = fiName (info d)" by blast
  from loop_provenance [OF run e(1)] e(2,3)
  show "returnFiles rt \<and> filepath_Ext (fiName (info d)) \<in> set f"
    by (auto simp: sliceContains_iff)
next
  assume "returnFiles rt \<and> filepath_Ext (fiName (info d)) \<in> set f"
  with loop_complete_files [OF run d] show "\<exists>e \<in> set list. Type e = ''file'' \<and> Name e = fiName (info d)"
    by (simp add: sliceContains_iff)
qed

lemma no_filter_no_files:
  assumes run: "listDirLoop path recursive [] rt ds [] = Returns (list, err)"
  shows "\<forall>e \<in> set list. Type e \<noteq> ''file''"
proof
  fix e assume "e \<in> set list"
  from loop_provenance [OF run this] show "Type e \<noteq> ''file''" by auto
qed

text \<open>
  Claim C7 (one sequence in read order, nothing interleaved): the claim says that the
  result holds exactly the entries that pass the filters. Line 233 appends an empty
  \<^verbatim>\<open>element{}\<close> before every directory element: listing a directory whose only child is
  the directory \<^verbatim>\<open>sub\<close> gives two elements, the first of them empty.
\<close>

theorem empty_element_before_directory:
  "listDir ''/srv/data'' (ReadGives [subEntry]) False [''.txt''] ''all''
     = Returns ([Element [] [] [] [] [] [] [] [],
                 Element ''directory'' ''sub'' ''/srv/data/sub'' ''1351789200000''
                   ''1351789200000'' ''4096'' ''true'' []], None)"
  by (simp add: sample_eval listing_eval)

text \<open>
  Claim C5, as stated, fails in its last part: a GET of \<^verbatim>\<open>/directory/srv/data\<close> with
  return type \<^verbatim>\<open>files\<close> and no \<^verbatim>\<open>file-filters\<close> header lists the file \<^verbatim>\<open>README\<close>, since
  \<open>dirHandler\<close> passes the filter \<^verbatim>\<open>[""]\<close> and \<^verbatim>\<open>README\<close> has the empty extension. And
  \<open>listDir\<close> called with the empty return type includes directories, though the return
  type is neither \<^verbatim>\<open>directories\<close> nor \<^verbatim>\<open>all\<close>.
\<close>

theorem absent_filter_lists_plain_files:
  "dirHandler sampleWorld (getRequest ''/directory/srv/data'' [(''return-type'', ''files'')])
     = WriteJSON (Element ''directory'' ''root'' ''/srv/data/'' [] [] [] []
         [Element ''file'' ''README'' ''/srv/data/README'' ''1351789200000''
            ''1351789200000'' ''12'' ''true'' []])
   \<and> listDir ''/srv/data'' (ReadGives [subEntry]) False [] []
     = Returns ([Element [] [] [] [] [] [] [] [],
                 Element ''directory'' ''sub'' ''/srv/data/sub'' ''1351789200000''
                   ''1351789200000'' ''4096'' ''true'' []], None)"
  by (simp add: path_eval sample_eval handler_eval listing_eval)

text \<open>
  Claim C5, amended: in a listing that returns without error, a directory child has an
  element iff the return type is \<^verbatim>\<open>directories\<close> or \<^verbatim>\<open>all\<close> (or empty, which \<open>listDir\<close>
  reads as \<^verbatim>\<open>all\<close>), whatever the filter; a file child has one iff the return type is
  \<^verbatim>\<open>files\<close> or \<^verbatim>\<open>all\<close> (or empty) and its extension is in the filter list. With the empty
  filter list no file has an element. With the list that \<open>dirHandler\<close> builds from an
  absent or empty \<^verbatim>\<open>file-filters\<close> header, \<^verbatim>\<open>Split("", ";")\<close>, exactly the files whose name
  has no extension have one. Conversely, every element of type \<^verbatim>\<open>directory\<close> in the list
  is the element of a directory child, with its name and path, and the return type asks
  for directories; every element of type \<^verbatim>\<open>file\<close> is the element of a child that is not
  a directory and whose extension is in the filter list, with its name and path and
  without children, and the return type asks for files; and no element has another
  type than \<^verbatim>\<open>directory\<close>, \<^verbatim>\<open>file\<close> or the empty one.
\<close>

theorem listing_inclusion:
  assumes "listDir path (ReadGives currentDir) recursive filter' returnType = Returns (list, None)"
    and "d \<in> set currentDir"
  shows "(fiIsDir (info d) \<longrightarrow>
            ((\<exists>e \<in> set list. Type e = ''directory'' \<and> Name e = fiName (info d))
               \<longleftrightarrow> returnType = ''directories'' \<or> returnType = ''all'' \<or> returnType = []))
       \<and> (\<not> fiIsDir (info d) \<longrightarrow>
            ((\<exists>e \<in> set list. Type e = ''file'' \<and> Name e = fiName (info d))
               \<longleftrightarrow> (returnType = ''files'' \<or> returnType = ''all'' \<or> returnType = [])
                    \<and> filepath_Ext (fiName (info d)) \<in> set filter'))
       \<and> (filter' = [] \<longrightarrow> (\<forall>e \<in> set list. Type e \<noteq> ''file''))
       \<and> (filter' = strings_Split [] CHR '';'' \<and> \<not> fiIsDir (info d) \<longrightarrow>
            ((\<exists>e \<in> set list. Type e = ''file'' \<and> Name e = fiName (info d))
               \<longleftrightarrow> (returnType = ''files'' \<or> returnType = ''all'' \<or> returnType = [])
                    \<and> filepath_Ext (fiName (info d)) = []))
       \<and> (\<forall>e \<in> set list. Type e = ''directory'' \<longrightarrow>
            (returnType = ''directories'' \<or> returnType = ''all'' \<or> returnType = [])
            \<and> (\<exists>c \<in> set currentDir. fiIsDir (info c) \<and> Name e = fiName (info c)
                  \<and> Uri e = filepath_Clean (path @ ''/'' @ fiName (info c))))
       \<and> (\<forall>e \<in> set list. Type e = ''file'' \<longrightarrow>
            (returnType = ''files'' \<or> returnType = ''all'' \<or> returnType = [])
            \<and> (\<exists>c \<in> set currentDir. \<not> fiIsDir (info c) \<and> Name e = fiName (info c)
                  \<and> filepath_Ext (fiName (info c)) \<in> set filter'
                  \<and> Uri e = filepath_Clean (path @ ''/'' @ fiName (info c))
                  \<and> Children e = []))
       \<and> (\<forall>e \<in> set list. Type e = ''directory'' \<or> Type e = ''file'' \<or> Type e = [])"
proof -
  from assms(1) have run: "listDirLoop path recursive filter' returnType currentDir [] = Returns (list, None)"
    by simp
  have rd: "returnDirs returnType \<longleftrightarrow> returnType = ''directories'' \<or> returnType = ''all'' \<or> returnType = []"
    by (simp add: returnDirs_def returnAll_def)
  have rf: "returnFiles returnType \<longleftrightarrow> returnType = ''files'' \<or> returnType = ''all'' \<or> returnType = []"
    by (simp add: returnFiles_def returnAll_def)
  have dirs: "fiIsDir (info d) \<longrightarrow>
            ((\<exists>e \<in> set list. Type e = ''directory'' \<and> Name e = fiName (info d))
               \<longleftrightarrow> returnType = ''directories'' \<or> returnType = ''all'' \<or> returnType = [])"
    using dir_included_iff [OF run assms(2)] rd by blast
  have files: "\<not> fiIsDir (info d) \<longrightarrow>
            ((\<exists>e \<in> set list. Type e = ''file'' \<and> Name e = fiName (info d))
               \<longleftrightarrow> (returnType = ''files'' \<or> returnType = ''all'' \<or> returnType = [])
                    \<and> filepath_Ext (fiName (info d)) \<in> set filter')"
    using file_included_iff [OF run assms(2)] rf by blast
  have none: "filter' = [] \<longrightarrow> (\<forall>e \<in> set list. Type e \<noteq> ''file'')"
    using no_filter_no_files run by blast
  have absent: "filter' = strings_Split [] CHR '';'' \<and> \<not> fiIsDir (info d) \<longrightarrow>
            ((\<exists>e \<in> set list. Type e = ''file'' \<and> Name e = fiName (info d))
               \<longleftrightarrow> (returnType = ''files'' \<or> returnType = ''all'' \<or> returnType = [])
                    \<and> filepath_Ext (fiName (info d)) = [])"
    using files by auto
  have from_dirs: "\<forall>e \<in> set list. Type e = ''directory'' \<longrightarrow>
            (returnType = ''directories'' \<or> returnType = ''all'' \<or> returnType = [])
            \<and> (\<exists>c \<in> set currentDir. fiIsDir (info c) \<and> Name e = fiName (info c)
                  \<and> Uri e = filepath_Clean (path @ ''/'' @ fiName (info c)))"
  proof (intro ballI impI)
    fix e assume "e \<in> set list" "Type e = ''directory''"
    with loop_provenance [OF run] rd
    show "(returnType = ''directories'' \<or> returnType = ''all'' \<or> returnType = [])
            \<and> (\<exists>c \<in> set currentDir. fiIsDir (info c) \<and> Name e = fiName (info c)
                  \<and> Uri e = filepath_Clean (path @ ''/'' @ fiName (info c)))"
      by fastforce
  qed
  have from_files: "\<forall>e \<in> set list. Type e = ''file'' \<longrightarrow>
            (returnType = ''files'' \<or> returnType = ''all'' \<or> returnType = [])
            \<and> (\<exists>c \<in> set currentDir. \<not> fiIsDir (info c) \<and> Name e = fiName (info c)
                  \<and> filepath_Ext (fiName (info c)) \<in> set filter'
                  \<and> Uri e = filepath_Clean (path @ ''/'' @ fiName (info c))
                  \<and> Children e = [])"
  proof (intro ballI impI)
    fix e assume "e \<in> set list" "Type e = ''file''"
    with loop_provenance [OF run] rf
    show "(returnType = ''files'' \<or> returnType = ''all'' \<or> returnType = [])
            \<and> (\<exists>c \<in> set currentDir. \<not> fiIsDir (info c) \<and> Name e = fiName (info c)
                  \<and> filepath_Ext (fiName (info c)) \<in> set filter'
                  \<and> Uri e = filepath_Clean (path @ ''/'' @ fiName (info c))
                  \<and> Children e = [])"
      by (fastforce simp: sliceContains_iff)
  qed
  have types: "\<forall>e \<in> set list. Type e = ''directory'' \<or> Type e = ''file'' \<or> Type e = []"
  proof
    fix e assume "e \<in> set list"
    from loop_provenance [OF run this]
    show "Type e = ''directory'' \<or> Type e = ''file'' \<or> Type e = []"
      by auto
  qed
  from dirs files none absent from_dirs from_files types show ?thesis by blast
qed

text \<open>
  Witness for C5: the recursive listing of the sample directory with the filter \<^verbatim>\<open>.txt\<close>
  and the return type \<^verbatim>\<open>all\<close> has \<^verbatim>\<open>sub\<close> and \<^verbatim>\<open>a.txt\<close>, and neither \<^verbatim>\<open>b.jpg\<close> nor
  \<^verbatim>\<open>README\<close>; the directory \<^verbatim>\<open>sub\<close> is not listed as a file, nor \<^verbatim>\<open>a.txt\<close> as a
  directory.
\<close>

theorem listing_inclusion_witness:
  "listDir ''/srv/data'' (ReadGives dataEntries) True [''.txt''] ''all''
     = Returns (sampleListing, None)
   \<and> (\<exists>e \<in> set sampleListing. Type e = ''directory'' \<and> Name e = ''sub'')
   \<and> (\<exists>e \<in> set sampleListing. Type e = ''file'' \<and> Name e = ''a.txt'')
   \<and> \<not> (\<exists>e \<in> set sampleListing. Type e = ''file'' \<and> Name e = ''b.jpg'')
   \<and> \<not> (\<exists>e \<in> set sampleListing. Type e = ''file'' \<and> Name e = ''README'')
   \<and> \<not> (\<exists>e \<in> set sampleListing. Type e = ''file'' \<and> Name e = ''sub'')
   \<and> \<not> (\<exists>e \<in> set sampleListing. Type e = ''directory'' \<and> Name e = ''a.txt'')"
proof -
  have sub: "subEntry \<in> set dataEntries" and a: "plainFile ''a.txt'' \<in> set dataEntries"
    and b: "plainFile ''b.jpg'' \<in> set dataEntries" and r: "plainFile ''README'' \<in> set dataEntries"
    by (simp_all add: dataEntries_def)
  show ?thesis
    using sample_listing
      listing_inclusion [OF sample_listing sub] listing_inclusion [OF sample_listing a]
      listing_inclusion [OF sample_listing b] listing_inclusion [OF sample_listing r]
    by (auto simp: dataEntries_def subEntry_def directory_def plainFile_def filepath_Ext_def)
qed



subsection \<open>Files are leaves\<close>

lemma filesAreLeaves_sel:
  "filesAreLeaves e =
     ((if Type e = ''file'' then Children e = [] else True)
      \<and> (\<forall>c \<in> set (Children e). filesAreLeaves c))"
  by (cases e) simp

lemma listDir_leaves_tree:
  "\<forall>path list err. listDir path rd recursive f rt = Returns (list, err)
       \<longrightarrow> (\<forall>e \<in> set list. filesAreLeaves e)" (is "?P rd")
proof (rule dirread.induct [where ?P1.0 = ?P and ?P2.0 = "\<lambda>d. ?P (below d)"])
  fix opn e
  show "?P (ReadFails opn e)" by simp
next
  fix ds
  assume IH: "\<And>d. d \<in> set ds \<Longrightarrow> ?P (below d)"
  show "?P (ReadGives ds)"
  proof (intro allI impI ballI)
    fix path list err e
    assume run: "listDir path (ReadGives ds) recursive f rt = Returns (list, err)"
      and e: "e \<in> set list"
    from run have "listDirLoop path recursive f rt ds [] = Returns (list, err)"
      by simp
    from loop_provenance [OF this e]
    consider "e = Element [] [] [] [] [] [] [] []"
      | d where "d \<in> set ds" "Type e = ''directory''"
          "if recursive
           then listDir (Uri e) (below d) recursive f rt = Returns (Children e, None)
           else Children e = []"
      | "Type e = ''file''" "Children e = []"
      by auto
    then show "filesAreLeaves e"
    proof cases
      case 1
      then show ?thesis by simp
    next
      case 2
      have "\<forall>c \<in> set (Children e). filesAreLeaves c"
      proof (cases recursive)
        case True
        with 2 have "listDir (Uri e) (below d) recursive f rt = Returns (Children e, None)"
          by simp
        with IH [OF 2(1)] show ?thesis by blast
      next
        case False
        with 2 show ?thesis by simp
      qed
      with 2 show ?thesis by (subst filesAreLeaves_sel) simp
    next
      case 3
      then show ?thesis by (subst filesAreLeaves_sel) simp
    qed
  qed
next
  fix i rd
  assume "?P rd"
  then show "?P (below (Dirent i rd))" by simp
qed

text \<open>
  Claim C9 (a file element never has children): in every list \<open>listDir\<close> returns, with
  or without an error, every element of type \<^verbatim>\<open>file\<close> has no children, and so at every
  depth of the tree of elements.
\<close>

theorem file_entries_have_no_children:
  assumes "listDir path rd recursive filter' returnType = Returns (list, err)"
  shows "\<forall>e \<in> set list. filesAreLeaves e"
  using assms listDir_leaves_tree by blast

text \<open>Witness for C9: the element of \<^verbatim>\<open>sub\<close> in the recursive sample listing.\<close>

theorem file_entries_have_no_children_witness:
  "filesAreLeaves
     (Element ''directory'' ''sub'' ''/srv/data/sub'' ''1351789200000'' ''1351789200000''
        ''4096'' ''true'' subListing)"
  by (rule bspec [OF file_entries_have_no_children [OF sample_listing]])
     (simp add: sampleListing_def)

subsection \<open>Failed listings\<close>

text \<open>
  An error of the loop is the error of a \<open>listDir\<close> below it, so every error of
  \<open>listDir\<close> is the \<^verbatim>\<open>PathError\<close> of a failed \<^verbatim>\<open>ReadDir\<close> and never the sentinel
  \<^verbatim>\<open>os.ErrNotExist\<close>. \<open>dirHandler\<close> therefore writes the listing only when \<open>listDir\<close>
  returned without error, and answers 404 only from its \<open>exist\<close> tests.
\<close>

lemma loop_error_from_below:
  "listDirLoop path recursive f rt ds acc = Returns (list, Some err) \<Longrightarrow>
     \<exists>d \<in> set ds. \<exists>uri l. listDir uri (below d) recursive f rt = Returns (l, Some err)"
  by (induction ds arbitrary: acc)
     (auto split: if_splits go.splits option.splits prod.splits)

lemma listDir_error_is_PathError:
  "\<forall>path list err. listDir path rd recursive f rt = Returns (list, Some err)
       \<longrightarrow> (\<exists>opn p e. err = PathError opn p e)" (is "?P rd")
proof (rule dirread.induct [where ?P1.0 = ?P and ?P2.0 = "\<lambda>d. ?P (below d)"])
  fix opn e
  show "?P (ReadFails opn e)" by simp
next
  fix ds
  assume IH: "\<And>d. d \<in> set ds \<Longrightarrow> ?P (below d)"
  show "?P (ReadGives ds)"
  proof (intro allI impI)
    fix path list err
    assume "listDir path (ReadGives ds) recursive f rt = Returns (list, Some err)"
    then have "listDirLoop path recursive f rt ds [] = Returns (list, Some err)"
      by simp
    from loop_error_from_below [OF this] IH show "\<exists>opn p e. err = PathError opn p e"
      by blast
  qed
next
  fix i rd
  assume "?P rd"
  then show "?P (below (Dirent i rd))" by simp
qed

lemma listDir_never_ErrNotExist:
  "listDir path rd recursive f rt \<noteq> Returns (list, Some ErrNotExist)"
  using listDir_error_is_PathError [of rd recursive f rt] by auto

lemma dirHandlerGET_listing:
  assumes "dirHandlerGET w r p = WriteJSON e"
  shows "listDir p (ioutil_ReadDir w p) (Header r ''recursive'' = ''true'')
           (strings_Split (Header r ''file-filters'') CHR '';'')
           (if Header r ''return-type'' = [] then ''all'' else Header r ''return-type'')
         = Returns (Children e, None)"
  using assms
  by (auto simp: dirHandlerGET_def Let_def split: if_splits go.splits prod.splits)

lemma dirHandlerGET_404:
  assumes "dirHandlerGET w r p = WriteHeader StatusNotFound"
  shows "\<not> exist w p"
  using assms listDir_never_ErrNotExist
  by (auto simp: dirHandlerGET_def Let_def split: if_splits go.splits prod.splits)

text \<open>
  Line 485 compares the error with the sentinel \<^verbatim>\<open>os.ErrNotExist\<close> by \<^verbatim>\<open>==\<close>, where
  \<open>exist\<close> (line 87) uses \<^verbatim>\<open>os.IsNotExist\<close>: a directory that does not exist, at the top
  or met during the descent, is answered 500 as well.
\<close>

lemma missing_directory_is_500:
  "ioutil_ReadDir sampleWorld ''/srv/data/missing'' = ReadFails ''open'' ENOENT
   \<and> listDir ''/srv/data/missing'' (ReadFails ''open'' ENOENT) False [[]] ''all''
       = Returns ([], Some (PathError ''open'' ''/srv/data/missing'' ENOENT))
   \<and> dirHandler sampleWorld (getRequest ''/directory/srv/data/missing'' [])
       = WriteHeader StatusInternalServerError
   \<and> dirHandler sampleWorld
        (getRequest ''/directory/srv/data/torn''
           [(''recursive'', ''true''), (''file-filters'', ''.txt'')])
       = WriteHeader StatusInternalServerError"
  by (simp add: path_eval sample_eval handler_eval listing_eval)

text \<open>
  A failure anywhere in the part of the tree that the listing reads leaves no
  successful result.
\<close>

lemma loop_aborts:
  assumes "d \<in> set ds" "fiIsDir (info d)" "recursive" "returnDirs rt"
    and "\<forall>uri list. listDir uri (below d) recursive f rt \<noteq> Returns (list, None)"
  shows "listDirLoop path recursive f rt ds acc \<noteq> Returns (list, None)"
  using assms
  by (induction ds arbitrary: acc)
     (auto split: if_splits go.splits option.splits prod.splits)

lemma unreadable_aborts:
  "unreadable (recursive \<and> returnDirs rt) rd \<longrightarrow>
     (\<forall>path list. listDir path rd recursive f rt \<noteq> Returns (list, None))" (is "?P rd")
proof (rule dirread.induct [where ?P1.0 = ?P and ?P2.0 = "\<lambda>d. ?P (below d)"])
  fix opn e
  show "?P (ReadFails opn e)" by simp
next
  fix ds
  assume IH: "\<And>d. d \<in> set ds \<Longrightarrow> ?P (below d)"
  show "?P (ReadGives ds)"
  proof (intro impI allI)
    fix path list
    assume "unreadable (recursive \<and> returnDirs rt) (ReadGives ds)"
    then obtain d where d: "d \<in> set ds" "fiIsDir (info d)" "recursive" "returnDirs rt"
      "unreadable (recursive \<and> returnDirs rt) (below d)"
      by auto
    with IH have "\<forall>uri list. listDir uri (below d) recursive f rt \<noteq> Returns (list, None)"
      by blast
    from loop_aborts [OF d(1-4) this]
    show "listDir path (ReadGives ds) recursive f rt \<noteq> Returns (list, None)"
      by simp
  qed
next
  fix i rd
  assume "?P rd"
  then show "?P (below (Dirent i rd))" by simp
qed

text \<open>
  Claim C6, as stated, fails: a directory that exists and may not be opened is answered
  500 Internal Server Error (line 488), not 404.
\<close>

theorem unreadable_directory_is_500:
  "ioutil_ReadDir sampleWorld ''/srv/data/locked'' = ReadFails ''open'' EACCES
   \<and> dirHandler sampleWorld (getRequest ''/directory/srv/data/locked'' [])
       = WriteHeader StatusInternalServerError"
  by (simp add: path_eval sample_eval handler_eval)

text \<open>
  Claim C6, amended: when the listed directory cannot be read, or a directory at any
  depth of a recursive descent cannot, a directory GET that reaches the listing does not
  write a listing, whole or partial: it answers with the status 404 or 500, or the
  listing panics; and when the listed directory itself fails for a reason other than
  not existing, the status is 500.
\<close>

theorem failed_listing_answer:
  assumes "Method r = ''GET''" and "URLPath r = dirPath @ fragment"
    and "osPath (GOOS w) fragment = Returns p" and "isInRoot (rootFlag w) p"
    and "Header r ''If-modified-since'' = [] \<or> Header r ''If-modified-since'' = ''false''
         \<or> Header r ''If-modified-since'' = ''none''"
    and "Header r ''check-existence-only'' \<noteq> ''true''"
    and "recursive = (Header r ''recursive'' = ''true'')"
    and "returnType = (if Header r ''return-type'' = [] then ''all'' else Header r ''return-type'')"
    and "unreadable (recursive \<and> returnDirs returnType) (ioutil_ReadDir w p)"
  shows "(dirHandler w r = WriteHeader StatusNotFound
          \<or> dirHandler w r = WriteHeader StatusInternalServerError
          \<or> dirHandler w r = Aborted)
       \<and> (\<forall>opn e. ioutil_ReadDir w p = ReadFails opn e \<and> e \<noteq> ENOENT
             \<longrightarrow> dirHandler w r = WriteHeader StatusInternalServerError)"
proof -
  from assms(3) have ne: "p \<noteq> []"
    by (auto simp: osPath_def split: if_splits)
  let ?run = "listDir p (ioutil_ReadDir w p) recursive
                (strings_Split (Header r ''file-filters'') CHR '';'') returnType"
  have h: "dirHandler w r =
             (case ?run of
                Panics \<Rightarrow> Aborted
              | Returns (fileInfo, err) \<Rightarrow>
                  if err = Some ErrNotExist then WriteHeader StatusNotFound
                  else if err \<noteq> None then WriteHeader StatusInternalServerError
                  else WriteJSON (Element ''directory'' ''root'' (p @ ''/'') [] [] [] [] fileInfo))"
    using assms(1-8) ne
    by (auto simp: dirHandler_def dirHandlerGET_def sliceFrom_def dirPathLen_def Let_def)
  from assms(9) unreadable_aborts have nosuccess: "\<forall>list. ?run \<noteq> Returns (list, None)"
    by blast
  have first: "dirHandler w r = WriteHeader StatusNotFound
          \<or> dirHandler w r = WriteHeader StatusInternalServerError
          \<or> dirHandler w r = Aborted"
    using nosuccess by (auto simp: h split: go.splits prod.splits)
  have second: "\<forall>opn e. ioutil_ReadDir w p = ReadFails opn e \<and> e \<noteq> ENOENT
             \<longrightarrow> dirHandler w r = WriteHeader StatusInternalServerError"
    by (auto simp: h)
  from first second show ?thesis by blast
qed

text \<open>
  Witness for C6: the directory that may not be opened, and the recursive listing of the
  directory whose subdirectory is gone.
\<close>

theorem failed_listing_answer_witness:
  "dirHandler sampleWorld (getRequest ''/directory/srv/data/locked'' [])
     = WriteHeader StatusInternalServerError
   \<and> (dirHandler sampleWorld (getRequest ''/directory/srv/data/torn'' [(''recursive'', ''true'')])
         = WriteHeader StatusNotFound
      \<or> dirHandler sampleWorld (getRequest ''/directory/srv/data/torn'' [(''recursive'', ''true'')])
         = WriteHeader StatusInternalServerError
      \<or> dirHandler sampleWorld (getRequest ''/directory/srv/data/torn'' [(''recursive'', ''true'')])
         = Aborted)"
  using failed_listing_answer
          [of "getRequest ''/directory/srv/data/locked'' []" "''srv/data/locked''" sampleWorld
              "''/srv/data/locked''" False "''all''"]
        failed_listing_answer
          [of "getRequest ''/directory/srv/data/torn'' [(''recursive'', ''true'')]"
              "''srv/data/torn''" sampleWorld "''/srv/data/torn''" True "''all''"]
  by (simp add: path_eval sample_eval dirPath_def returnDirs_def returnAll_def)

section \<open>Conditional GET\<close>

lemma parseUintLoop_syntax: "snd (parseUintLoop s n) = Some ErrSyntax \<Longrightarrow> fst (parseUintLoop s n) = 0"
  by (induction s arbitrary: n) (auto split: if_splits)

lemma ParseInt_syntax_zero:
  "snd (strconv_ParseInt t) = Some ErrSyntax \<Longrightarrow> fst (strconv_ParseInt t) = 0"
  by (auto simp: strconv_ParseInt_def Let_def split: if_splits prod.splits)

lemma ParseInt_range_bound:
  "snd (strconv_ParseInt t) = Some ErrRange \<Longrightarrow>
     fst (strconv_ParseInt t) = 9223372036854775807 \<or> fst (strconv_ParseInt t) = - 9223372036854775808"
  by (auto simp: strconv_ParseInt_def Let_def split: if_splits prod.splits)

lemma exist_iff: "exist w p \<longleftrightarrow> os_Stat w p \<noteq> Inl ENOENT"
  by (auto simp: exist_def properties_def split: sum.splits)

text \<open>
  Claim C10, as stated, fails in three places. The header \<^verbatim>\<open>9223372036854775807\<close> parses,
  stat succeeds and the mathematical product is greater than the modification time, yet
  the answer is 304: the product wraps to \<open>-1000000\<close>. A directory GET whose target does
  not exist is answered 404, not 304. And the header \<^verbatim>\<open>yesterday\<close> does not parse, the
  comparison uses 0, and the file modified before 1970 is answered 200, not 304.
\<close>

theorem modified_since_counterexample:
  "strconv_ParseInt ''9223372036854775807'' = (9223372036854775807, None)
   \<and> os_Stat sampleWorld ''/srv/data/a.txt'' = Inr (info (plainFile ''a.txt''))
   \<and> sint (fiModTime (info (plainFile ''a.txt''))) < 9223372036854775807 * 1000000
   \<and> fileHandler sampleWorld
        (getRequest ''/file/srv/data/a.txt'' [(''If-modified-since'', ''9223372036854775807'')])
       = WriteHeader StatusNotModified
   \<and> os_Stat sampleWorld ''/srv/data/missing'' = Inl ENOENT
   \<and> dirHandler sampleWorld
        (getRequest ''/directory/srv/data/missing'' [(''If-modified-since'', ''1'')])
       = WriteHeader StatusNotFound
   \<and> strconv_ParseInt ''yesterday'' = (0, Some ErrSyntax)
   \<and> fileHandler sampleWorld
        (getRequest ''/file/srv/data/old'' [(''If-modified-since'', ''yesterday'')])
       = WriteHeader StatusOK"
  by (simp add: path_eval sample_eval handler_eval strconv_ParseInt_def strconv_ParseUint_def
        word_sless_alt)

text \<open>
  Line 78 multiplies in \<^verbatim>\<open>int64\<close>: the product is the mathematical one wrapped to 64
  bits in two's complement.
\<close>

lemma modifiedSince_product_wraps:
  "sint (s * 1000000 :: 64 word) = signed_take_bit 63 (sint s * 1000000)"
  by (simp add: sint_word_ariths)

text \<open>
  Claim C10, amended: for a GET whose resolved path \<open>p\<close> is inside the root and whose
  \<^verbatim>\<open>If-modified-since\<close> header \<open>t\<close> is not empty, \<^verbatim>\<open>false\<close> or \<^verbatim>\<open>none\<close>, let \<open>s\<close> be the value
  \<^verbatim>\<open>ParseInt\<close> returns for \<open>t\<close> (0 on a syntax error, the \<^verbatim>\<open>int64\<close> bound on a range error).
  \<open>fileHandler\<close> answers 200 iff stat succeeds and \<open>s * 1000000\<close>, wrapped to \<^verbatim>\<open>int64\<close>, is
  greater than the modification time in nanoseconds, and 304 otherwise. \<open>dirHandler\<close>
  answers 404 when stat fails because the target does not exist, and otherwise as
  \<open>fileHandler\<close> does.
\<close>

theorem modified_since_response:
  assumes "Method r = ''GET''"
    and "Header r ''If-modified-since'' = t"
    and "t \<noteq> []" and "t \<noteq> ''false''" and "t \<noteq> ''none''"
    and "osPath (GOOS w) fragment = Returns p"
    and "isInRoot (rootFlag w) p"
  shows "(URLPath r = filePath @ fragment \<longrightarrow>
            fileHandler w r =
              (case os_Stat w p of
                 Inl errno \<Rightarrow> WriteHeader StatusNotModified
               | Inr infos \<Rightarrow>
                   if fiModTime infos <s fst (strconv_ParseInt t) * 1000000
                   then WriteHeader StatusOK else WriteHeader StatusNotModified))
       \<and> (URLPath r = dirPath @ fragment \<longrightarrow>
            dirHandler w r =
              (case os_Stat w p of
                 Inl errno \<Rightarrow>
                   if errno = ENOENT then WriteHeader StatusNotFound
                   else WriteHeader StatusNotModified
               | Inr infos \<Rightarrow>
                   if fiModTime infos <s fst (strconv_ParseInt t) * 1000000
                   then WriteHeader StatusOK else WriteHeader StatusNotModified))
       \<and> (snd (strconv_ParseInt t) = Some ErrSyntax \<longrightarrow> fst (strconv_ParseInt t) = 0)
       \<and> (snd (strconv_ParseInt t) = Some ErrRange \<longrightarrow>
            fst (strconv_ParseInt t) = 9223372036854775807
            \<or> fst (strconv_ParseInt t) = - 9223372036854775808)"
proof -
  from assms(6) have ne: "p \<noteq> []"
    by (auto simp: osPath_def split: if_splits)
  have fh: "URLPath r = filePath @ fragment \<longrightarrow>
            fileHandler w r =
              (case os_Stat w p of
                 Inl errno \<Rightarrow> WriteHeader StatusNotModified
               | Inr infos \<Rightarrow>
                   if fiModTime infos <s fst (strconv_ParseInt t) * 1000000
                   then WriteHeader StatusOK else WriteHeader StatusNotModified)"
    using assms
    by (simp add: fileHandler_def fileHandlerGET_def sliceFrom_def filePathLen_def
          modifiedSince_def properties_def split: sum.splits)
  have dh: "URLPath r = dirPath @ fragment \<longrightarrow>
            dirHandler w r =
              (case os_Stat w p of
                 Inl errno \<Rightarrow>
                   if errno = ENOENT then WriteHeader StatusNotFound
                   else WriteHeader StatusNotModified
               | Inr infos \<Rightarrow>
                   if fiModTime infos <s fst (strconv_ParseInt t) * 1000000
                   then WriteHeader StatusOK else WriteHeader StatusNotModified)"
    using assms ne
    by (simp add: dirHandler_def dirHandlerGET_def sliceFrom_def dirPathLen_def
          modifiedSince_def properties_def exist_def split: sum.splits)
  from fh dh ParseInt_syntax_zero ParseInt_range_bound show ?thesis by blast
qed

text \<open>
  Witness for C10: a file GET with a header later than the modification time is
  answered 200, and a directory GET with a header equal to it 304.
\<close>

theorem modified_since_response_witness:
  "fileHandler sampleWorld
      (getRequest ''/file/srv/data/a.txt'' [(''If-modified-since'', ''1351789200001'')])
     = WriteHeader StatusOK
   \<and> dirHandler sampleWorld
      (getRequest ''/directory/srv/data'' [(''If-modified-since'', ''1351789200000'')])
     = WriteHeader StatusNotModified"
  using modified_since_response
          [of "getRequest ''/file/srv/data/a.txt'' [(''If-modified-since'', ''1351789200001'')]"
              "''1351789200001''" sampleWorld "''srv/data/a.txt''" "''/srv/data/a.txt''"]
        modified_since_response
          [of "getRequest ''/directory/srv/data'' [(''If-modified-since'', ''1351789200000'')]"
              "''1351789200000''" sampleWorld "''srv/data''" "''/srv/data''"]
  by (simp add: path_eval sample_eval filePath_def dirPath_def strconv_ParseInt_def
        strconv_ParseUint_def word_sless_alt)

end
